theory Spec2Isabelle
  imports Main "HOL-Library.Sublist"
begin

section \<open>The chat component of \<open>src/unnamed/part_000\<close> (class \<open>Chat\<close>, lines 79-177)\<close>

subsection \<open>JavaScript values and the two exceptions the handlers can raise\<close>

text \<open>
  The handlers read fields of whatever \<open>JSON.parse\<close> returns and of whatever the
  \<open>addmessage\<close> event carries, so the model keeps JavaScript's own value space, as far
  as JSON text can denote it, with \<open>undefined\<close> added: a field that is absent reads as
  \<open>undefined\<close>, and reading a field of \<open>null\<close> or \<open>undefined\<close> raises \<open>TypeError\<close>.
  A number is held as the text that JavaScript's \<open>ToString\<close> gives it (the only thing
  the handlers ever do with one); an object is its list of own properties in insertion
  order, a later binding of a key replacing an earlier one.
\<close>

datatype jsval =
    JUndefined
  | JNull
  | JBool bool
  | JNum string
  | JStr string
  | JArr "jsval list"
  | JObj "(string \<times> jsval) list"

datatype error = SyntaxError | TypeError

text \<open>\<open>Array.prototype.join\<close> on the already converted elements.\<close>

fun join :: "string \<Rightarrow> string list \<Rightarrow> string" where
  "join sep [] = []"
| "join sep [x] = x"
| "join sep (x # y # ys) = x @ sep @ join sep (y # ys)"

text \<open>
  The conversion to text that \<open>+\<close> with a string operand, a template literal and the
  loose comparison with a string apply. An array is joined with commas, its elements
  converted from left to right, \<open>null\<close> and \<open>undefined\<close> elements giving the empty
  text. A plain object gives \<open>[object Object]\<close> through \<open>Object.prototype.toString\<close>,
  unless it has an own property \<open>toString\<close>: that one is found first, is not callable
  (it is data), and with \<open>valueOf\<close> returning the object itself the conversion raises
  \<open>TypeError\<close>.
\<close>

fun toString :: "jsval \<Rightarrow> error + string"
  and elements_text :: "jsval list \<Rightarrow> error + string list" where
  "toString JUndefined = Inr ''undefined''"
| "toString JNull = Inr ''null''"
| "toString (JBool b) = Inr (if b then ''true'' else ''false'')"
| "toString (JNum n) = Inr n"
| "toString (JStr s) = Inr s"
| "toString (JArr xs) =
     (case elements_text xs of Inl e \<Rightarrow> Inl e | Inr ts \<Rightarrow> Inr (join '','' ts))"
| "toString (JObj kvs) =
     (if ''toString'' \<in> set (map fst kvs) then Inl TypeError else Inr ''[object Object]'')"
| "elements_text [] = Inr []"
| "elements_text (v # vs) =
     (case (if v = JUndefined \<or> v = JNull then Inr [] else toString v) of
        Inl e \<Rightarrow> Inl e
      | Inr t \<Rightarrow> (case elements_text vs of Inl e \<Rightarrow> Inl e | Inr ts \<Rightarrow> Inr (t # ts)))"

text \<open>
  Property read \<open>v.k\<close> for the property names the component uses (\<open>content\<close>, \<open>sender\<close>,
  \<open>command\<close>, \<open>so_far\<close>, \<open>url\<close>; none of them is defined on a built-in prototype, so a
  primitive or an array reads as \<open>undefined\<close>).
\<close>

definition own_prop :: "(string \<times> jsval) list \<Rightarrow> string \<Rightarrow> jsval" where
  "own_prop kvs k = (case map_of (rev kvs) k of None \<Rightarrow> JUndefined | Some v \<Rightarrow> v)"

fun get_prop :: "jsval \<Rightarrow> string \<Rightarrow> error + jsval" where
  "get_prop JUndefined k = Inl TypeError"
| "get_prop JNull k = Inl TypeError"
| "get_prop (JObj kvs) k = Inr (own_prop kvs k)"
| "get_prop v k = Inr JUndefined"

text \<open>
  The comparison \<open>x != 'ai'\<close> of line 134 is the loose one. Against the text \<open>ai\<close>
  (which is not numeric) a string compares by its characters, an array or object by its
  conversion to text, and \<open>undefined\<close>, \<open>null\<close>, a number or a boolean are never equal
  to it.
\<close>

fun loose_neq_ai :: "jsval \<Rightarrow> error + bool" where
  "loose_neq_ai (JStr s) = Inr (s \<noteq> ''ai'')"
| "loose_neq_ai (JArr xs) =
     (case toString (JArr xs) of Inl e \<Rightarrow> Inl e | Inr t \<Rightarrow> Inr (t \<noteq> ''ai''))"
| "loose_neq_ai (JObj kvs) =
     (case toString (JObj kvs) of Inl e \<Rightarrow> Inl e | Inr t \<Rightarrow> Inr (t \<noteq> ''ai''))"
| "loose_neq_ai v = Inr True"

text \<open>
  The \<open>data\<close> text of a server-sent event, up to what \<open>JSON.parse\<close> makes of it: either
  a JSON text, named by the value it parses to, or any other text.
\<close>

datatype event_data = Json jsval | NotJson

fun JSON_parse :: "event_data \<Rightarrow> error + jsval" where
  "JSON_parse (Json v) = Inr v"
| "JSON_parse NotJson = Inl SyntaxError"

subsection \<open>State\<close>

record message =
  content :: jsval
  sender :: jsval

text \<open>
  One call of \<open>fetch\<close> (lines 120-126): the address and the options \<open>method\<close>
  (here \<open>http_method\<close>), \<open>headers\<close> and \<open>body\<close>. \<open>body\<close> holds the value handed
  to \<open>JSON.stringify\<close>.
\<close>

record request =
  url :: string
  http_method :: string
  headers :: "(string \<times> string) list"
  body :: jsval

text \<open>
  The component: its \<open>sessionid\<close> property (declared of type \<open>String\<close>; \<open>None\<close> while
  the attribute is not set and the property is \<open>undefined\<close>), its \<open>messages\<close> array, and
  the requests it has issued so far, oldest first (the trace of its \<open>fetch\<close> calls;
  nothing ever reads a response).
\<close>

record chat =
  sessionid :: "string option"
  messages :: "message list"
  requests :: "request list"

text \<open>The constructor (lines 97-103): \<open>this.messages = []\<close>.\<close>

definition new_chat :: "string option \<Rightarrow> chat" where
  "new_chat sid = \<lparr>sessionid = sid, messages = [], requests = []\<rparr>"

text \<open>The address of line 120, \<open>/chat/${this.sessionid}/send\<close>.\<close>

definition send_url :: "chat \<Rightarrow> string" where
  "send_url this =
     ''/chat/'' @ (case sessionid this of None \<Rightarrow> ''undefined'' | Some sid \<Rightarrow> sid) @ ''/send''"

text \<open>
  \<open>this.messages[this.messages.length-1]\<close>: on the empty array the index is \<open>-1\<close> and
  the read gives \<open>undefined\<close>, here \<open>None\<close>.
\<close>

definition last_message :: "message list \<Rightarrow> message option" where
  "last_message ms = (if ms = [] then None else Some (last ms))"

text \<open>\<open>this.messages[this.messages.length-1].content = c\<close> on a non-empty array.\<close>

definition set_last_content :: "message list \<Rightarrow> jsval \<Rightarrow> message list" where
  "set_last_content ms c = ms[length ms - 1 := (ms ! (length ms - 1))\<lparr>content := c\<rparr>]"

subsection \<open>The handlers\<close>

text \<open>
  Each handler takes what the event carries and the component, and returns the exception
  it raised (\<open>None\<close> when it completed) with the component as it is left: an exception
  does not undo the assignments made before it. Writing to the console and asking for a
  new rendering are left out.
\<close>

text \<open>\<open>_addMessage\<close> (lines 114-128); the argument is \<open>event.detail\<close>.\<close>

definition addMessage :: "jsval \<Rightarrow> chat \<Rightarrow> error option \<times> chat" where
  "addMessage detail this =
     (case get_prop detail ''content'' of
        Inl e \<Rightarrow> (Some e, this)
      | Inr c \<Rightarrow>
         (case get_prop detail ''sender'' of
            Inl e \<Rightarrow> (Some e, this)
          | Inr s \<Rightarrow>
             (let this1 = this\<lparr>messages := messages this @ [\<lparr>content = c, sender = s\<rparr>]\<rparr>
              in if s = JStr ''user''
                 then (None, this1\<lparr>requests := requests this1 @
                         [\<lparr>url = send_url this1,
                           http_method = ''POST'',
                           headers = [(''Content-Type'', ''application/json'')],
                           body = JObj [(''message'', c)]\<rparr>]\<rparr>)
                 else (None, this1))))"

text \<open>\<open>_partialCmd\<close> (lines 130-140); the argument is \<open>event.data\<close>.\<close>

definition partialCmd :: "event_data \<Rightarrow> chat \<Rightarrow> error option \<times> chat" where
  "partialCmd ev this =
     (case JSON_parse ev of
        Inl e \<Rightarrow> (Some e, this)
      | Inr data \<Rightarrow>
         (case last_message (messages this) of
            None \<Rightarrow> (Some TypeError, this)
          | Some m \<Rightarrow>
             (case loose_neq_ai (sender m) of
                Inl e \<Rightarrow> (Some e, this)
              | Inr ne \<Rightarrow>
                 (let this1 = (if ne
                               then this\<lparr>messages := messages this @
                                      [\<lparr>content = JStr [], sender = JStr ''ai''\<rparr>]\<rparr>
                               else this)
                  in case get_prop data ''command'' of
                       Inl e \<Rightarrow> (Some e, this1)
                     | Inr cmd \<Rightarrow>
                        (case toString cmd of
                           Inl e \<Rightarrow> (Some e, this1)
                         | Inr c \<Rightarrow>
                            (case get_prop data ''so_far'' of
                               Inl e \<Rightarrow> (Some e, this1)
                             | Inr sf \<Rightarrow>
                                (case toString sf of
                                   Inl e \<Rightarrow> (Some e, this1)
                                 | Inr s \<Rightarrow>
                                    (None, this1\<lparr>messages :=
                                       set_last_content (messages this1)
                                         (JStr (c @ '': '' @ s))\<rparr>))))))))"

text \<open>\<open>_aiMessage\<close> (lines 143-148).\<close>

definition aiMessage :: "event_data \<Rightarrow> chat \<Rightarrow> error option \<times> chat" where
  "aiMessage ev this =
     (case JSON_parse ev of
        Inl e \<Rightarrow> (Some e, this)
      | Inr data \<Rightarrow>
         (case get_prop data ''content'' of
            Inl e \<Rightarrow> (Some e, this)
          | Inr c \<Rightarrow>
             (None, this\<lparr>messages := messages this @ [\<lparr>content = c, sender = JStr ''ai''\<rparr>]\<rparr>)))"

text \<open>
  The template literal of line 154, around the text of \<open>data.url\<close>; \<open>CHR 0x22\<close> is the
  double quote.
\<close>

definition image_html :: "string \<Rightarrow> string" where
  "image_html u = ''<img src='' @ [CHR 0x22] @ u @ [CHR 0x22] @ '' alt=''
                  @ [CHR 0x22] @ ''image'' @ [CHR 0x22] @ ''>''"

text \<open>\<open>_imageMsg\<close> (lines 150-156).\<close>

definition imageMsg :: "event_data \<Rightarrow> chat \<Rightarrow> error option \<times> chat" where
  "imageMsg ev this =
     (case JSON_parse ev of
        Inl e \<Rightarrow> (Some e, this)
      | Inr data \<Rightarrow>
         (case get_prop data ''url'' of
            Inl e \<Rightarrow> (Some e, this)
          | Inr u \<Rightarrow>
             (case toString u of
                Inl e \<Rightarrow> (Some e, this)
              | Inr t \<Rightarrow>
                 (None, this\<lparr>messages := messages this @
                          [\<lparr>content = JStr (image_html t), sender = JStr ''ai''\<rparr>]\<rparr>))))"

subsection \<open>Events and their delivery\<close>

text \<open>
  The wiring of lines 109-111 and 171: \<open>new_message\<close> goes to \<open>_aiMessage\<close>, \<open>image\<close> to
  \<open>_imageMsg\<close>, \<open>partial_command\<close> to \<open>_partialCmd\<close>, and the form's \<open>addmessage\<close> to
  \<open>_addMessage\<close>.
\<close>

datatype event =
    AddMessage jsval
  | NewMessage event_data
  | ImageEvent event_data
  | PartialCommand event_data

fun handle :: "event \<Rightarrow> chat \<Rightarrow> error option \<times> chat" where
  "handle (AddMessage detail) this = addMessage detail this"
| "handle (NewMessage d) this = aiMessage d this"
| "handle (ImageEvent d) this = imageMsg d this"
| "handle (PartialCommand d) this = partialCmd d this"

text \<open>
  The host delivers events one after the other. An exception leaves its handler and is
  reported by the host; the next event is delivered to the component as that handler
  left it. \<open>deliver\<close> returns what each handler raised, in order, and the final component.
\<close>

fun deliver :: "event list \<Rightarrow> chat \<Rightarrow> error option list \<times> chat" where
  "deliver [] this = ([], this)"
| "deliver (e # es) this =
     (case handle e this of
        (r, this1) \<Rightarrow> (case deliver es this1 of (rs, this2) \<Rightarrow> (r # rs, this2)))"

subsection \<open>The four operations of the specification\<close>

text \<open>
  Modelled from the spec: the \<open>chat-form\<close> element, which dispatches \<open>addmessage\<close>, is
  not among the sources; by the specification a user submission carries the authored
  text, appended with sender \<open>user\<close>, so its detail is \<open>{content, sender: 'user'}\<close>.
\<close>

definition onUserSubmit :: "string \<Rightarrow> event" where
  "onUserSubmit c = AddMessage (JObj [(''content'', JStr c), (''sender'', JStr ''user'')])"

text \<open>The server's events with the payload fields of the specification's table.\<close>

definition onFinalMessage :: "string \<Rightarrow> event" where
  "onFinalMessage c = NewMessage (Json (JObj [(''content'', JStr c)]))"

definition onImageMessage :: "string \<Rightarrow> event" where
  "onImageMessage u = ImageEvent (Json (JObj [(''url'', JStr u)]))"

definition onPartialCommand :: "string \<Rightarrow> string \<Rightarrow> event" where
  "onPartialCommand cmd sf =
     PartialCommand (Json (JObj [(''command'', JStr cmd), (''so_far'', JStr sf)]))"

definition user_entry :: "string \<Rightarrow> message" where
  "user_entry c = \<lparr>content = JStr c, sender = JStr ''user''\<rparr>"

definition ai_entry :: "string \<Rightarrow> message" where
  "ai_entry c = \<lparr>content = JStr c, sender = JStr ''ai''\<rparr>"

definition partial_text :: "string \<Rightarrow> string \<Rightarrow> string" where
  "partial_text cmd sf = cmd @ '': '' @ sf"

text \<open>A call of one of the two appending server operations, and the entry it is to add.\<close>

datatype ai_call = Final string | ImageUrl string

fun ai_call_event :: "ai_call \<Rightarrow> event" where
  "ai_call_event (Final c) = onFinalMessage c"
| "ai_call_event (ImageUrl u) = onImageMessage u"

fun ai_call_entry :: "ai_call \<Rightarrow> message" where
  "ai_call_entry (Final c) = ai_entry c"
| "ai_call_entry (ImageUrl u) = ai_entry (image_html u)"

section \<open>Properties\<close>

subsection \<open>Basic facts about the array operations and the four operations\<close>

lemma last_message_Nil [simp]: "last_message [] = None"
  by (simp add: last_message_def)

lemma last_message_snoc [simp]: "last_message (ms @ [m]) = Some m"
  by (simp add: last_message_def)

lemma set_last_content_snoc [simp]:
  "set_last_content (ms @ [m]) c = ms @ [m\<lparr>content := c\<rparr>]"
  by (simp add: set_last_content_def)

lemma set_last_content_snoc2 [simp]:
  "set_last_content (ms @ [a, b]) c = ms @ [a, b\<lparr>content := c\<rparr>]"
  using set_last_content_snoc [of "ms @ [a]" b c] by simp

lemma length_set_last_content [simp]: "length (set_last_content ms c) = length ms"
  by (simp add: set_last_content_def)

lemma take_set_last_content [simp]:
  "k \<le> length ms - 1 \<Longrightarrow> take k (set_last_content ms c) = take k ms"
  by (simp add: set_last_content_def)

lemma handle_onFinalMessage:
  "handle (onFinalMessage c) st = (None, st\<lparr>messages := messages st @ [ai_entry c]\<rparr>)"
  by (simp add: onFinalMessage_def aiMessage_def ai_entry_def own_prop_def)

lemma handle_onImageMessage:
  "handle (onImageMessage u) st =
     (None, st\<lparr>messages := messages st @ [ai_entry (image_html u)]\<rparr>)"
  by (simp add: onImageMessage_def imageMsg_def ai_entry_def own_prop_def)

lemma handle_AddMessage_object:
  "handle (AddMessage (JObj kvs)) st =
     (None, st\<lparr>messages := messages st @
                  [\<lparr>content = own_prop kvs ''content'', sender = own_prop kvs ''sender''\<rparr>],
               requests := (if own_prop kvs ''sender'' = JStr ''user''
                            then requests st @
                              [\<lparr>url = send_url st,
                                http_method = ''POST'',
                                headers = [(''Content-Type'', ''application/json'')],
                                body = JObj [(''message'', own_prop kvs ''content'')]\<rparr>]
                            else requests st)\<rparr>)"
  by (simp add: addMessage_def Let_def send_url_def)

lemma handle_onUserSubmit:
  "handle (onUserSubmit c) st =
     (None, st\<lparr>messages := messages st @ [user_entry c],
               requests := requests st @
                 [\<lparr>url = send_url st,
                   http_method = ''POST'',
                   headers = [(''Content-Type'', ''application/json'')],
                   body = JObj [(''message'', JStr c)]\<rparr>]\<rparr>)"
  unfolding onUserSubmit_def handle_AddMessage_object
  by (simp add: user_entry_def own_prop_def)

lemma partial_on_empty:
  "messages st = [] \<Longrightarrow> handle (onPartialCommand cmd sf) st = (Some TypeError, st)"
  by (simp add: onPartialCommand_def partialCmd_def)

lemma partial_after_ai:
  "messages st = ms @ [m] \<Longrightarrow> loose_neq_ai (sender m) = Inr False \<Longrightarrow>
   handle (onPartialCommand cmd sf) st =
     (None, st\<lparr>messages := ms @ [m\<lparr>content := JStr (partial_text cmd sf)\<rparr>]\<rparr>)"
  by (simp add: onPartialCommand_def partialCmd_def partial_text_def own_prop_def)

lemma partial_after_other:
  "messages st = ms @ [m] \<Longrightarrow> loose_neq_ai (sender m) = Inr True \<Longrightarrow>
   handle (onPartialCommand cmd sf) st =
     (None, st\<lparr>messages := ms @ [m, ai_entry (partial_text cmd sf)]\<rparr>)"
  by (simp add: onPartialCommand_def partialCmd_def partial_text_def ai_entry_def own_prop_def)

text \<open>
  Once the array ends in an \<open>ai\<close> entry, any non-empty run of partial commands keeps
  its length and leaves the text of the most recent one in that entry.
\<close>

lemma partials_collapse:
  "cs \<noteq> [] \<Longrightarrow> messages st = ms @ [m] \<Longrightarrow> sender m = JStr ''ai'' \<Longrightarrow>
   deliver (map (\<lambda>(c, s). onPartialCommand c s) cs) st =
     (replicate (length cs) None,
      st\<lparr>messages := ms @ [m\<lparr>content := JStr (partial_text (fst (last cs)) (snd (last cs)))\<rparr>]\<rparr>)"
proof (induction cs arbitrary: st m)
  case Nil
  then show ?case by simp
next
  case (Cons a cs)
  obtain c s where a: "a = (c, s)" by (cases a)
  let ?m = "m\<lparr>content := JStr (partial_text c s)\<rparr>"
  let ?st = "st\<lparr>messages := ms @ [?m]\<rparr>"
  have "loose_neq_ai (sender m) = Inr False"
    using Cons.prems(3) by simp
  with Cons.prems(2) have step: "handle (onPartialCommand c s) st = (None, ?st)"
    by (rule partial_after_ai)
  show ?case
  proof (cases "cs = []")
    case True
    then show ?thesis using step a by simp
  next
    case False
    have "deliver (map (\<lambda>(c, s). onPartialCommand c s) cs) ?st =
            (replicate (length cs) None,
             ?st\<lparr>messages := ms @ [?m\<lparr>content := JStr (partial_text (fst (last cs)) (snd (last cs)))\<rparr>]\<rparr>)"
      using Cons.prems(3) by (intro Cons.IH [OF False]) simp_all
    then show ?thesis using step a False by simp
  qed
qed

subsection \<open>Partial commands\<close>

text \<open>
  C1. The specification has \<open>onPartialCommand\<close> append an empty \<open>ai\<close> entry when the sequence is
  empty and then write \<open>command: soFar\<close> into it. On the empty sequence line 134 reads
  \<open>this.messages[-1].sender\<close>, the sender of \<open>undefined\<close>: the handler raises \<open>TypeError\<close>
  and the sequence stays empty. (On a non-empty sequence the handler does what the specification
  says: \<open>partial_after_ai\<close>, \<open>partial_after_other\<close>.)
\<close>

theorem C1_partial_command_on_empty_raises:
  "handle (onPartialCommand ''search'' ''ca'') (new_chat (Some ''s1''))
     = (Some TypeError, new_chat (Some ''s1''))"
  by (simp add: partial_on_empty new_chat_def)

text \<open>
  C2. The specification's scenario 2: two partial commands from the empty state are to leave the
  single entry \<open>search: cat\<close>. Both calls raise \<open>TypeError\<close> and the sequence is still
  empty afterwards. (From a sequence that ends in an \<open>ai\<close> entry the run does collapse
  into that entry: \<open>partials_collapse\<close>.)
\<close>

theorem C2_partial_commands_from_empty:
  "deliver [onPartialCommand ''search'' ''ca'', onPartialCommand ''search'' ''cat'']
           (new_chat (Some ''s1''))
     = ([Some TypeError, Some TypeError], new_chat (Some ''s1''))"
  by (simp add: partial_on_empty new_chat_def)

text \<open>
  C3. When the last entry of the sequence has sender \<open>user\<close>, as after a user
  submission, a partial command completes and appends exactly one entry, the \<open>ai\<close>
  entry with the text \<open>command: soFar\<close>; every earlier entry, the user's included, is
  where and what it was.
\<close>

theorem C3_partial_after_user_appends:
  assumes "last_message (messages st) = Some u" and "sender u = JStr ''user''"
  shows "handle (onPartialCommand cmd sf) st =
           (None, st\<lparr>messages := messages st @ [ai_entry (partial_text cmd sf)]\<rparr>)"
proof -
  from assms(1) have ne: "messages st \<noteq> []" and u: "u = last (messages st)"
    by (auto simp: last_message_def split: if_splits)
  then have ms: "messages st = butlast (messages st) @ [u]" by simp
  have "loose_neq_ai (sender u) = Inr True" using assms(2) by simp
  from partial_after_other [OF ms this, of cmd sf] ms show ?thesis by simp
qed

theorem C3_partial_after_user_appends_witness:
  "last_message (messages (snd (handle (onUserSubmit ''hi'') (new_chat (Some ''s1'')))))
     = Some (user_entry ''hi'')
   \<and> sender (user_entry ''hi'') = JStr ''user''
   \<and> messages (snd (handle (onPartialCommand ''search'' ''ca'')
                  (snd (handle (onUserSubmit ''hi'') (new_chat (Some ''s1''))))))
     = [user_entry ''hi'', ai_entry ''search: ca'']"
proof -
  let ?st = "snd (handle (onUserSubmit ''hi'') (new_chat (Some ''s1'')))"
  have a: "last_message (messages ?st) = Some (user_entry ''hi'')"
    by (simp add: handle_onUserSubmit new_chat_def last_message_def)
  have b: "sender (user_entry ''hi'') = JStr ''user''"
    by (simp add: user_entry_def)
  from C3_partial_after_user_appends [OF a b, of "''search''" "''ca''"] a b
  show ?thesis by (simp add: handle_onUserSubmit new_chat_def partial_text_def)
qed

text \<open>
  C5. The specification's scenario 3: a partial command and then a final message, from the empty
  state, are to leave two entries. The partial command raises \<open>TypeError\<close> on the empty
  sequence and adds nothing, so only the final message's entry is there. (That a final or
  image message is never merged into the entry before it is \<open>handle_onFinalMessage\<close> and
  \<open>handle_onImageMessage\<close>: both append whatever the last entry is.)
\<close>

theorem C5_partial_then_final_from_empty:
  "deliver [onPartialCommand ''search'' ''cat'', onFinalMessage ''Done'']
           (new_chat (Some ''s1''))
     = ([Some TypeError, None], (new_chat (Some ''s1''))\<lparr>messages := [ai_entry ''Done'']\<rparr>)"
  by (simp add: partial_on_empty handle_onFinalMessage new_chat_def)

subsection \<open>Final and image messages\<close>

lemma deliver_ai_calls:
  "deliver (map ai_call_event cs) st =
     (replicate (length cs) None, st\<lparr>messages := messages st @ map ai_call_entry cs\<rparr>)"
proof (induction cs arbitrary: st)
  case Nil
  show ?case by simp
next
  case (Cons a cs)
  show ?case
    by (cases a) (simp_all add: handle_onFinalMessage handle_onImageMessage Cons.IH)
qed

lemma sender_ai_call_entry: "sender (ai_call_entry a) = JStr ''ai''"
  by (cases a) (simp_all add: ai_entry_def)

lemma senders_ai_call_entries:
  "map sender (map ai_call_entry cs) = replicate (length cs) (JStr ''ai'')"
  by (induction cs) (simp_all add: sender_ai_call_entry)

text \<open>
  C4. Any sequence of final-message and image-message calls, from any state, completes
  without an exception and leaves the old sequence followed by one entry per call, in
  order: the length grows by the number of calls, the old entries are untouched, and
  every new entry has sender \<open>ai\<close>.
\<close>

theorem C4_final_and_image_calls_append:
  "deliver (map ai_call_event cs) st =
     (replicate (length cs) None, st\<lparr>messages := messages st @ map ai_call_entry cs\<rparr>)
   \<and> length (messages (snd (deliver (map ai_call_event cs) st))) = length (messages st) + length cs
   \<and> take (length (messages st)) (messages (snd (deliver (map ai_call_event cs) st))) = messages st
   \<and> map sender (drop (length (messages st)) (messages (snd (deliver (map ai_call_event cs) st))))
       = replicate (length cs) (JStr ''ai'')"
  using senders_ai_call_entries [of cs] by (simp add: deliver_ai_calls)

text \<open>
  C9. An image message with address \<open>u\<close> completes and appends exactly one entry, with
  sender \<open>ai\<close> and the content \<open><img src="u" alt="image">\<close>, of which \<open>u\<close> is a
  contiguous part; from the empty state, the address \<open>http://x/y.png\<close> gives the one
  entry with that markup.
\<close>

theorem C9_image_message_embeds_url:
  "handle (onImageMessage u) st =
     (None, st\<lparr>messages := messages st @
              [\<lparr>content = JStr (''<img src='' @ [CHR 0x22] @ u @ [CHR 0x22] @ '' alt=''
                                @ [CHR 0x22] @ ''image'' @ [CHR 0x22] @ ''>''),
                sender = JStr ''ai''\<rparr>]\<rparr>)
   \<and> sublist u (''<img src='' @ [CHR 0x22] @ u @ [CHR 0x22] @ '' alt=''
                  @ [CHR 0x22] @ ''image'' @ [CHR 0x22] @ ''>'')
   \<and> messages (snd (handle (onImageMessage ''http://x/y.png'') (new_chat sid)))
       = [\<lparr>content = JStr (''<img src='' @ [CHR 0x22] @ ''http://x/y.png'' @ [CHR 0x22]
                            @ '' alt='' @ [CHR 0x22] @ ''image'' @ [CHR 0x22] @ ''>''),
            sender = JStr ''ai''\<rparr>]"
proof -
  have "sublist u (''<img src='' @ [CHR 0x22] @ u @ [CHR 0x22] @ '' alt=''
                  @ [CHR 0x22] @ ''image'' @ [CHR 0x22] @ ''>'')"
    unfolding sublist_def
    by (rule exI [of _ "''<img src='' @ [CHR 0x22]"], rule exI [of _ "[CHR 0x22] @ '' alt=''
                  @ [CHR 0x22] @ ''image'' @ [CHR 0x22] @ ''>''"]) simp
  then show ?thesis
    by (simp add: handle_onImageMessage ai_entry_def image_html_def new_chat_def)
qed

subsection \<open>User submissions and forwarding\<close>

text \<open>
  C6. A user submission with text \<open>c\<close> completes, appends exactly the entry
  \<open>{content: c, sender: 'user'}\<close>, and issues exactly one request, a \<open>POST\<close> to the send
  address whose body is the JSON text of \<open>{message: c}\<close>. Nothing in the handler
  depends on what becomes of the request.
\<close>

theorem C6_user_submit_appends_and_posts_once:
  "fst (handle (onUserSubmit c) st) = None
   \<and> messages (snd (handle (onUserSubmit c) st))
       = messages st @ [\<lparr>content = JStr c, sender = JStr ''user''\<rparr>]
   \<and> requests (snd (handle (onUserSubmit c) st))
       = requests st @ [\<lparr>url = send_url st,
                          http_method = ''POST'',
                          headers = [(''Content-Type'', ''application/json'')],
                          body = JObj [(''message'', JStr c)]\<rparr>]"
  by (simp add: handle_onUserSubmit user_entry_def)

text \<open>
  C10. For an \<open>addmessage\<close> event whose detail has fields to read (anything but
  \<open>null\<close> and \<open>undefined\<close>), the handler completes and appends the entry with the
  detail's content and sender; it issues a request exactly when the sender is the string
  \<open>user\<close>, and otherwise the requests are as before.
\<close>

theorem C10_forwards_iff_sender_is_user:
  assumes "get_prop d ''content'' = Inr c" and "get_prop d ''sender'' = Inr s"
  shows "fst (handle (AddMessage d) st) = None
   \<and> messages (snd (handle (AddMessage d) st)) = messages st @ [\<lparr>content = c, sender = s\<rparr>]
   \<and> requests (snd (handle (AddMessage d) st))
       = (if s = JStr ''user''
          then requests st @
            [\<lparr>url = send_url st,
              http_method = ''POST'',
              headers = [(''Content-Type'', ''application/json'')],
              body = JObj [(''message'', c)]\<rparr>]
          else requests st)
   \<and> ((requests (snd (handle (AddMessage d) st)) \<noteq> requests st) = (s = JStr ''user''))"
  using assms by (simp add: addMessage_def Let_def send_url_def)

theorem C10_forwards_iff_sender_is_user_witness:
  "get_prop (JObj [(''content'', JStr ''hello''), (''sender'', JStr ''ai'')]) ''content''
     = Inr (JStr ''hello'')
   \<and> get_prop (JObj [(''content'', JStr ''hello''), (''sender'', JStr ''ai'')]) ''sender''
     = Inr (JStr ''ai'')
   \<and> fst (handle (AddMessage (JObj [(''content'', JStr ''hello''), (''sender'', JStr ''ai'')]))
             (new_chat (Some ''s1''))) = None
   \<and> messages (snd (handle (AddMessage (JObj [(''content'', JStr ''hello''), (''sender'', JStr ''ai'')]))
                       (new_chat (Some ''s1'')))) = [ai_entry ''hello'']
   \<and> requests (snd (handle (AddMessage (JObj [(''content'', JStr ''hello''), (''sender'', JStr ''ai'')]))
                       (new_chat (Some ''s1'')))) = []"
proof -
  let ?d = "JObj [(''content'', JStr ''hello''), (''sender'', JStr ''ai'')]"
  have c: "get_prop ?d ''content'' = Inr (JStr ''hello'')"
    by (simp add: own_prop_def)
  have s: "get_prop ?d ''sender'' = Inr (JStr ''ai'')"
    by (simp add: own_prop_def)
  have e: "messages (new_chat (Some ''s1'')) = [] \<and> requests (new_chat (Some ''s1'')) = []"
    by (simp add: new_chat_def)
  from C10_forwards_iff_sender_is_user [OF c s, of "new_chat (Some ''s1'')"] c s e
  show ?thesis
    by (simp only: ai_entry_def append_Nil jsval.inject list.inject char.inject simp_thms if_False)
qed

subsection \<open>Only the last entry is ever written\<close>

lemma addMessage_keeps_earlier:
  "length (messages st) \<le> length (messages (snd (addMessage d st)))
   \<and> take (length (messages st) - 1) (messages (snd (addMessage d st))) = butlast (messages st)"
  by (simp add: addMessage_def Let_def butlast_conv_take split: sum.splits)

lemma aiMessage_keeps_earlier:
  "length (messages st) \<le> length (messages (snd (aiMessage d st)))
   \<and> take (length (messages st) - 1) (messages (snd (aiMessage d st))) = butlast (messages st)"
  by (simp add: aiMessage_def butlast_conv_take split: sum.splits)

lemma imageMsg_keeps_earlier:
  "length (messages st) \<le> length (messages (snd (imageMsg d st)))
   \<and> take (length (messages st) - 1) (messages (snd (imageMsg d st))) = butlast (messages st)"
  by (simp add: imageMsg_def butlast_conv_take split: sum.splits)

lemma partialCmd_keeps_earlier:
  "length (messages st) \<le> length (messages (snd (partialCmd d st)))
   \<and> take (length (messages st) - 1) (messages (snd (partialCmd d st))) = butlast (messages st)"
  by (simp add: partialCmd_def Let_def butlast_conv_take split: sum.splits option.splits)

lemma handle_keeps_earlier:
  "length (messages st) \<le> length (messages (snd (handle e st)))
   \<and> take (length (messages st) - 1) (messages (snd (handle e st))) = butlast (messages st)"
  by (cases e)
     (simp_all only: handle.simps addMessage_keeps_earlier aiMessage_keeps_earlier
        imageMsg_keeps_earlier partialCmd_keeps_earlier simp_thms)

lemma keeps_earlier_trans:
  assumes "length a \<le> length b" "take (length a - 1) b = butlast a"
      and "length b \<le> length c" "take (length b - 1) c = butlast (b :: 'a list)"
  shows "length a \<le> length c \<and> take (length a - 1) c = butlast a"
proof -
  have "take (length a - 1) c = take (length a - 1) (take (length b - 1) c)"
    using assms(1) by (simp add: min_def)
  also have "\<dots> = take (length a - 1) (take (length b - 1) b)"
    using assms(4) by (simp add: butlast_conv_take)
  also have "\<dots> = take (length a - 1) b"
    using assms(1) by (simp add: min_def)
  finally show ?thesis using assms(1,2,3) by simp
qed

lemma deliver_keeps_earlier:
  "length (messages st) \<le> length (messages (snd (deliver es st)))
   \<and> take (length (messages st) - 1) (messages (snd (deliver es st))) = butlast (messages st)"
proof (induction es arbitrary: st)
  case Nil
  show ?case by (simp add: butlast_conv_take)
next
  case (Cons e es)
  obtain r st1 where h: "handle e st = (r, st1)" by (cases "handle e st")
  obtain rs st2 where d: "deliver es st1 = (rs, st2)" by (cases "deliver es st1")
  from handle_keeps_earlier [of st e] h
  have 1: "length (messages st) \<le> length (messages st1)"
          "take (length (messages st) - 1) (messages st1) = butlast (messages st)" by simp_all
  from Cons.IH [of st1] d
  have 2: "length (messages st1) \<le> length (messages st2)"
          "take (length (messages st1) - 1) (messages st2) = butlast (messages st1)" by simp_all
  from keeps_earlier_trans [OF 1 2] h d show ?case by simp
qed

text \<open>
  C7. Whatever the event and its payload, and whether the handler completes or raises,
  the sequence never gets shorter and every entry but the last of the old sequence is in
  the new one, at its place and unchanged. The same holds across any sequence of events:
  an entry that is no longer the last one keeps its content and sender for good.
\<close>

theorem C7_only_last_entry_is_mutated:
  "take (length (messages st) - 1) (messages (snd (handle e st))) = butlast (messages st)
   \<and> length (messages st) \<le> length (messages (snd (handle e st)))
   \<and> take (length (messages st) - 1) (messages (snd (deliver es st))) = butlast (messages st)
   \<and> length (messages st) \<le> length (messages (snd (deliver es st)))"
  using handle_keeps_earlier [of st e] deliver_keeps_earlier [of st es] by simp

subsection \<open>Payloads that lack a field\<close>

text \<open>
  The only exception that the conversion to text can raise is \<open>TypeError\<close>, and every
  value but \<open>null\<close> and \<open>undefined\<close> has fields to read.
\<close>

lemma toString_raises_TypeError:
  "toString v = Inl e \<Longrightarrow> e = TypeError"
  "elements_text vs = Inl e \<Longrightarrow> e = TypeError"
  by (induction v and vs arbitrary: e and e rule: toString_elements_text.induct)
     (auto split: sum.splits if_splits)

lemma get_prop_defined:
  "d \<noteq> JNull \<Longrightarrow> d \<noteq> JUndefined \<Longrightarrow> \<exists>v. get_prop d k = Inr v"
  by (cases d) simp_all

text \<open>
  C8. The specification has every handler complete on every payload, a malformed event being
  checked and dropped. No handler checks anything: a payload that is the JSON text
  \<open>null\<close> makes \<open>_aiMessage\<close> raise \<open>TypeError\<close>, one that is not JSON makes it raise
  \<open>SyntaxError\<close>, the object \<open>{}\<close>, which lacks \<open>content\<close>, is not dropped but
  appended as an entry whose content is \<open>undefined\<close>, and a \<open>command\<close> that is an
  object with an own \<open>toString\<close> makes \<open>_partialCmd\<close> raise \<open>TypeError\<close> on a sequence
  that ends in an \<open>ai\<close> entry.
\<close>

theorem C8_counterexample:
  "fst (handle (NewMessage (Json JNull)) (new_chat (Some ''s1''))) = Some TypeError
   \<and> fst (handle (NewMessage NotJson) (new_chat (Some ''s1''))) = Some SyntaxError
   \<and> handle (NewMessage (Json (JObj []))) (new_chat (Some ''s1''))
       = (None, (new_chat (Some ''s1''))\<lparr>messages := [\<lparr>content = JUndefined, sender = JStr ''ai''\<rparr>]\<rparr>)
   \<and> handle (PartialCommand (Json (JObj [(''command'', JObj [(''toString'', JNull)]),
                                           (''so_far'', JStr ''x'')])))
         ((new_chat (Some ''s1''))\<lparr>messages := [ai_entry ''hi'']\<rparr>)
       = (Some TypeError, (new_chat (Some ''s1''))\<lparr>messages := [ai_entry ''hi'']\<rparr>)"
  by (simp add: aiMessage_def partialCmd_def new_chat_def own_prop_def last_message_def
                ai_entry_def)

text \<open>
  C8, as amended. For a payload that is the JSON text of any value but \<open>null\<close> (an
  object with or without the expected fields, an array, a string, a number, a boolean)
  the event is neither checked nor dropped. \<open>new_message\<close> completes and appends one
  \<open>ai\<close> entry whose content is what \<open>content\<close> reads as (\<open>undefined\<close> when missing).
  \<open>addmessage\<close> completes and appends one entry. \<open>image\<close> completes and appends the
  markup around the text of \<open>url\<close> when that value converts to text (a missing one
  gives \<open>undefined\<close>), and otherwise raises \<open>TypeError\<close> and leaves the component as
  it was. \<open>partial_command\<close>, on a sequence with a last entry whose sender can be
  compared with \<open>ai\<close>, appends an empty \<open>ai\<close> entry when that sender is not \<open>ai\<close>;
  then, when \<open>command\<close> and \<open>so_far\<close> both convert to text, it completes with
  \<open>command: so_far\<close> written into the last entry, and otherwise it raises \<open>TypeError\<close>
  and leaves the entry it may have appended.
\<close>

theorem C8_non_null_payload_is_kept_unvalidated:
  assumes "d \<noteq> JNull" and "d \<noteq> JUndefined"
  shows
  "(\<exists>v. get_prop d ''content'' = Inr v
        \<and> handle (NewMessage (Json d)) st
            = (None, st\<lparr>messages := messages st @ [\<lparr>content = v, sender = JStr ''ai''\<rparr>]\<rparr>))
   \<and> fst (handle (AddMessage d) st) = None
   \<and> length (messages (snd (handle (AddMessage d) st))) = length (messages st) + 1
   \<and> (\<exists>u. get_prop d ''url'' = Inr u
        \<and> handle (ImageEvent (Json d)) st
            = (case toString u of
                 Inl e \<Rightarrow> (Some TypeError, st)
               | Inr t \<Rightarrow> (None, st\<lparr>messages := messages st @ [ai_entry (image_html t)]\<rparr>)))
   \<and> (last_message (messages st) = Some m \<and> loose_neq_ai (sender m) = Inr b \<longrightarrow>
        (\<exists>cmd sf. get_prop d ''command'' = Inr cmd \<and> get_prop d ''so_far'' = Inr sf
          \<and> handle (PartialCommand (Json d)) st
              = (case toString cmd of
                   Inl e \<Rightarrow>
                     (Some TypeError,
                      if b then st\<lparr>messages := messages st @ [ai_entry []]\<rparr> else st)
                 | Inr c \<Rightarrow>
                     (case toString sf of
                        Inl e \<Rightarrow>
                          (Some TypeError,
                           if b then st\<lparr>messages := messages st @ [ai_entry []]\<rparr> else st)
                      | Inr s \<Rightarrow>
                          (None, st\<lparr>messages :=
                             (if b then messages st @ [ai_entry (partial_text c s)]
                              else butlast (messages st)
                                     @ [m\<lparr>content := JStr (partial_text c s)\<rparr>])\<rparr>)))))"
proof -
  obtain vc where vc: "get_prop d ''content'' = Inr vc"
    using get_prop_defined [OF assms] by blast
  obtain vs where vs: "get_prop d ''sender'' = Inr vs"
    using get_prop_defined [OF assms] by blast
  obtain u where u: "get_prop d ''url'' = Inr u"
    using get_prop_defined [OF assms] by blast
  obtain cmd where cmd: "get_prop d ''command'' = Inr cmd"
    using get_prop_defined [OF assms] by blast
  obtain sf where sf: "get_prop d ''so_far'' = Inr sf"
    using get_prop_defined [OF assms] by blast
  have 1: "\<exists>v. get_prop d ''content'' = Inr v
        \<and> handle (NewMessage (Json d)) st
            = (None, st\<lparr>messages := messages st @ [\<lparr>content = v, sender = JStr ''ai''\<rparr>]\<rparr>)"
    using vc by (simp add: aiMessage_def)
  have 2: "fst (handle (AddMessage d) st) = None
      \<and> length (messages (snd (handle (AddMessage d) st))) = length (messages st) + 1"
    using vc vs by (simp add: addMessage_def Let_def)
  have "handle (ImageEvent (Json d)) st
            = (case toString u of
                 Inl e \<Rightarrow> (Some TypeError, st)
               | Inr t \<Rightarrow> (None, st\<lparr>messages := messages st @ [ai_entry (image_html t)]\<rparr>))"
    using u by (auto simp: imageMsg_def ai_entry_def split: sum.splits
                     dest: toString_raises_TypeError(1))
  with u have 3: "\<exists>u. get_prop d ''url'' = Inr u
        \<and> handle (ImageEvent (Json d)) st
            = (case toString u of
                 Inl e \<Rightarrow> (Some TypeError, st)
               | Inr t \<Rightarrow> (None, st\<lparr>messages := messages st @ [ai_entry (image_html t)]\<rparr>))"
    by blast
  have 4: "\<exists>cmd sf. get_prop d ''command'' = Inr cmd \<and> get_prop d ''so_far'' = Inr sf
          \<and> handle (PartialCommand (Json d)) st
              = (case toString cmd of
                   Inl e \<Rightarrow>
                     (Some TypeError,
                      if b then st\<lparr>messages := messages st @ [ai_entry []]\<rparr> else st)
                 | Inr c \<Rightarrow>
                     (case toString sf of
                        Inl e \<Rightarrow>
                          (Some TypeError,
                           if b then st\<lparr>messages := messages st @ [ai_entry []]\<rparr> else st)
                      | Inr s \<Rightarrow>
                          (None, st\<lparr>messages :=
                             (if b then messages st @ [ai_entry (partial_text c s)]
                              else butlast (messages st)
                                     @ [m\<lparr>content := JStr (partial_text c s)\<rparr>])\<rparr>)))"
    if h: "last_message (messages st) = Some m \<and> loose_neq_ai (sender m) = Inr b"
  proof -
    from h have ne: "messages st \<noteq> []" and m: "m = last (messages st)"
      by (auto simp: last_message_def split: if_splits)
    then have ms: "messages st = butlast (messages st) @ [m]" by simp
    have upd: "set_last_content (messages st) x = butlast (messages st) @ [m\<lparr>content := x\<rparr>]"
      for x
      using set_last_content_snoc [of "butlast (messages st)" m x] ms by simp
    have "handle (PartialCommand (Json d)) st
              = (case toString cmd of
                   Inl e \<Rightarrow>
                     (Some TypeError,
                      if b then st\<lparr>messages := messages st @ [ai_entry []]\<rparr> else st)
                 | Inr c \<Rightarrow>
                     (case toString sf of
                        Inl e \<Rightarrow>
                          (Some TypeError,
                           if b then st\<lparr>messages := messages st @ [ai_entry []]\<rparr> else st)
                      | Inr s \<Rightarrow>
                          (None, st\<lparr>messages :=
                             (if b then messages st @ [ai_entry (partial_text c s)]
                              else butlast (messages st)
                                     @ [m\<lparr>content := JStr (partial_text c s)\<rparr>])\<rparr>)))"
      using h cmd sf
      by (auto simp: partialCmd_def Let_def upd partial_text_def ai_entry_def
               split: sum.splits dest: toString_raises_TypeError(1))
    with cmd sf show ?thesis by blast
  qed
  from 1 2 3 4 show ?thesis by blast
qed

theorem C8_non_null_payload_is_kept_unvalidated_witness:
  "JObj [] \<noteq> JNull \<and> JObj [] \<noteq> JUndefined
   \<and> handle (NewMessage (Json (JObj []))) ((new_chat None)\<lparr>messages := [ai_entry ''hi'']\<rparr>)
       = (None, (new_chat None)\<lparr>messages :=
                  [ai_entry ''hi'', \<lparr>content = JUndefined, sender = JStr ''ai''\<rparr>]\<rparr>)
   \<and> handle (ImageEvent (Json (JObj []))) ((new_chat None)\<lparr>messages := [ai_entry ''hi'']\<rparr>)
       = (None, (new_chat None)\<lparr>messages := [ai_entry ''hi'', ai_entry (image_html ''undefined'')]\<rparr>)
   \<and> last_message (messages ((new_chat None)\<lparr>messages := [ai_entry ''hi'']\<rparr>)) = Some (ai_entry ''hi'')
   \<and> loose_neq_ai (sender (ai_entry ''hi'')) = Inr False
   \<and> handle (PartialCommand (Json (JObj []))) ((new_chat None)\<lparr>messages := [ai_entry ''hi'']\<rparr>)
       = (None, (new_chat None)\<lparr>messages := [ai_entry ''undefined: undefined'']\<rparr>)"
proof -
  let ?st = "(new_chat None)\<lparr>messages := [ai_entry ''hi'']\<rparr>"
  have a: "JObj [] \<noteq> JNull" and b: "JObj [] \<noteq> JUndefined"
    by simp_all
  have p: "last_message (messages ?st) = Some (ai_entry ''hi'')
           \<and> loose_neq_ai (sender (ai_entry ''hi'')) = Inr False"
    by (simp add: last_message_def ai_entry_def)
  from C8_non_null_payload_is_kept_unvalidated [OF a b, of ?st "ai_entry ''hi''" False] p
  show ?thesis by (simp add: own_prop_def partial_text_def ai_entry_def)
qed

end
